theory Spec2Isabelle
  imports Main "HOL-Library.Sublist"
begin

section \<open>Python values and the plugin's surroundings\<close>

text \<open>
  The plugin (\<^verbatim>\<open>myauth/myauth.py\<close>) is glue between a host framework (JupyterHub), the
  operating system's identity databases and a user-creation command.  The model keeps
  the plugin's own control flow as it is written and takes everything the plugin only
  calls as data: the state of the operating system, the state of the host, a trace of
  the calls and log records the plugin emits, and an environment of library functions.
  A Python exception is a value of \<open>py_error\<close>; a method that may raise returns
  \<open>py_error + 'a\<close> (\<open>Inl\<close> the exception) together with the state it left behind.
\<close>

datatype py_error =
    KeyError string
  | ValueError string
  | RuntimeError string
  | OSError string

text \<open>\<^verbatim>\<open>except KeyError\<close> catches exactly the exceptions built by \<open>KeyError\<close>.\<close>

fun is_KeyError :: "py_error \<Rightarrow> bool" where
  "is_KeyError (KeyError m) = True"
| "is_KeyError (ValueError m) = False"
| "is_KeyError (RuntimeError m) = False"
| "is_KeyError (OSError m) = False"

text \<open>The host's user object; the plugin reads only \<^verbatim>\<open>user.name\<close>.\<close>

record user =
  name :: string

text \<open>
  Entries of the group and password databases (\<^verbatim>\<open>grp.struct_group\<close>,
  \<^verbatim>\<open>pwd.struct_passwd\<close>); the plugin reads only \<^verbatim>\<open>gr_mem\<close>.
\<close>

record struct_group =
  gr_name :: string
  gr_mem :: "string list"

record struct_passwd =
  pw_name :: string
  pw_uid :: nat

text \<open>
  The operating system as the plugin sees it: the text files of the working directory
  (path to the text \<^verbatim>\<open>read()\<close> returns; no entry when the file cannot be opened or read), the
  password database and the group database.
\<close>

record os_state =
  files :: "string \<rightharpoonup> string"
  passwd :: "string \<rightharpoonup> struct_passwd"
  groups :: "string \<rightharpoonup> struct_group"

text \<open>
  A child process after \<^verbatim>\<open>p.wait()\<close> has returned: its exit status and the decoded text
  of its combined standard output and standard error (\<^verbatim>\<open>stdout=PIPE, stderr=STDOUT\<close>).
\<close>

record process =
  returncode :: int
  stdout :: string

datatype level = INFO | WARNING | ERROR

text \<open>
  What the plugin does to the outside, in the order it does it: records handed to
  \<^verbatim>\<open>self.log\<close>, child processes started, and calls into the host framework.
\<close>

datatype event =
    Log level string
  | Call_Popen "string list"
  | Call_user_from_username string
  | Call_set_login_cookie user
  | Call_redirect string
  | Call_super_add_user user

record 'h world =
  os :: os_state
  hub :: 'h
  trace :: "event list"

text \<open>
  The configurable traits of \<^verbatim>\<open>MyLocalAuthenticator\<close>.  \<open>add_user_cmd\<close> is \<open>None\<close> while
  no value has been configured.  \<open>group_whitelist\<close> is a Python set: the list holds its
  elements in the order in which iterating the set yields them.  \<open>whitelist\<close> is the
  username allow-list inherited from the base \<^verbatim>\<open>Authenticator\<close>.
\<close>

record authenticator =
  create_system_users :: bool
  add_user_cmd :: "string list option"
  group_whitelist :: "string list"
  whitelist :: "string set"

text \<open>
  Library and host functions the plugin calls but does not define.  They are parameters
  of the model: \<^verbatim>\<open>sys.platform\<close>, \<^verbatim>\<open>shutil.which\<close>, \<^verbatim>\<open>pipes.quote\<close>,
  \<^verbatim>\<open>jupyterhub.utils.url_path_join\<close>, \<^verbatim>\<open>subprocess.Popen\<close> followed by \<^verbatim>\<open>p.wait()\<close>
  (which may raise instead of starting the child, and may change the operating
  system's databases; \<^verbatim>\<open>p.wait()\<close> has no timeout, and a child that never exits is not
  represented), the handler methods \<^verbatim>\<open>user_from_username\<close>,
  \<^verbatim>\<open>set_login_cookie\<close> and \<^verbatim>\<open>redirect\<close>, the attribute \<^verbatim>\<open>self.hub.server.base_url\<close>, and
  the base class's \<^verbatim>\<open>check_whitelist\<close> and \<^verbatim>\<open>add_user\<close>.
\<close>

record 'h env =
  platform :: string
  which :: "string \<Rightarrow> string option"
  quote :: "string \<Rightarrow> string"
  url_path_join :: "string \<Rightarrow> string \<Rightarrow> string"
  Popen :: "string list \<Rightarrow> os_state \<Rightarrow> (py_error + process) \<times> os_state"
  user_from_username :: "string \<Rightarrow> 'h \<Rightarrow> (py_error + user) \<times> 'h"
  set_login_cookie :: "user \<Rightarrow> 'h \<Rightarrow> (py_error + unit) \<times> 'h"
  redirect :: "string \<Rightarrow> 'h \<Rightarrow> (py_error + unit) \<times> 'h"
  base_url :: "'h \<Rightarrow> string"
  super_check_whitelist :: "authenticator \<Rightarrow> string \<Rightarrow> bool"
  super_add_user :: "user \<Rightarrow> 'h \<Rightarrow> (py_error + unit) \<times> 'h"

definition emit :: "event \<Rightarrow> 'h world \<Rightarrow> 'h world" where
  "emit e w = w\<lparr>trace := trace w @ [e]\<rparr>"

section \<open>Strings\<close>

text \<open>
  \<^verbatim>\<open>s.replace(old, new)\<close>: every occurrence of \<open>old\<close> in \<open>s\<close>, found from the left and not
  overlapping, becomes \<open>new\<close>; for an empty \<open>old\<close>, \<open>new\<close> is put before every character
  and at the end.
\<close>

fun replace :: "string \<Rightarrow> string \<Rightarrow> string \<Rightarrow> string" where
  "replace old new [] = (if old = [] then new else [])"
| "replace old new (c # cs) =
     (if old = [] then new @ c # replace old new cs
      else if prefix old (c # cs) then new @ replace old new (drop (length old) (c # cs))
      else c # replace old new cs)"

text \<open>\<^verbatim>\<open>sep.join(xs)\<close>.\<close>

fun join :: "string \<Rightarrow> string list \<Rightarrow> string" where
  "join sep [] = []"
| "join sep [x] = x"
| "join sep (x # y # ys) = x @ sep @ join sep (y # ys)"

text \<open>The truth value Python gives the result of \<^verbatim>\<open>which\<close>: \<^verbatim>\<open>None\<close> and the empty string are false.\<close>

fun truthy :: "string option \<Rightarrow> bool" where
  "truthy None = False"
| "truthy (Some p) = (p \<noteq> [])"

section \<open>The identity databases\<close>

text \<open>
  \<^verbatim>\<open>grp.getgrnam\<close> and \<^verbatim>\<open>pwd.getpwnam\<close> return the entry of a name.  The databases hold
  C strings, so no entry has a name with a NUL character (\<open>CHR 0x00\<close>).  For a name
  without an entry the lookup raises \<^verbatim>\<open>ValueError\<close> when the name contains a NUL
  character, which cannot be handed to the C library, and \<^verbatim>\<open>KeyError\<close> otherwise.
\<close>

definition getgrnam :: "os_state \<Rightarrow> string \<Rightarrow> py_error + struct_group" where
  "getgrnam s grnam =
     (case groups s grnam of
        Some g \<Rightarrow> Inr g
      | None \<Rightarrow>
          (if CHR 0x00 \<in> set grnam then Inl (ValueError ''embedded null byte'')
           else Inl (KeyError (''getgrnam(): name not found: '' @ grnam))))"

definition getpwnam :: "os_state \<Rightarrow> string \<Rightarrow> py_error + struct_passwd" where
  "getpwnam s n =
     (case passwd s n of
        Some p \<Rightarrow> Inr p
      | None \<Rightarrow>
          (if CHR 0x00 \<in> set n then Inl (ValueError ''embedded null byte'')
           else Inl (KeyError (''getpwnam(): name not found: '' @ n))))"

section \<open>\<^verbatim>\<open>MyLoginHandler\<close>\<close>

text \<open>
  \<^verbatim>\<open>MyLoginHandler.get\<close> (lines 18 to 23).  \<^verbatim>\<open>open\<close> raises when the file cannot be opened;
  the newline character is \<open>CHR 0x0A\<close>.  Each host call is recorded in the trace before
  its outcome is inspected, and an exception of the host ends the handler.
\<close>

definition MyLoginHandler_get :: "'h env \<Rightarrow> 'h world \<Rightarrow> (py_error + unit) \<times> 'h world" where
  "MyLoginHandler_get env w =
     (case files (os w) ''auto_login_username.txt'' of
        None \<Rightarrow> (Inl (OSError ''auto_login_username.txt''), w)
      | Some content \<Rightarrow>
          (let username = replace [CHR 0x0A] [] content;
               (r1, h1) = user_from_username env username (hub w);
               w1 = emit (Call_user_from_username username) (w\<lparr>hub := h1\<rparr>)
           in case r1 of
                Inl e \<Rightarrow> (Inl e, w1)
              | Inr user \<Rightarrow>
                  (let (r2, h2) = set_login_cookie env user h1;
                       w2 = emit (Call_set_login_cookie user) (w1\<lparr>hub := h2\<rparr>)
                   in case r2 of
                        Inl e \<Rightarrow> (Inl e, w2)
                      | Inr u \<Rightarrow>
                          (let url = url_path_join env (base_url env h2) ''home'';
                               (r3, h3) = redirect env url h2
                           in (r3, emit (Call_redirect url) (w2\<lparr>hub := h3\<rparr>))))))"

section \<open>\<^verbatim>\<open>MyLocalAuthenticator\<close>\<close>

subsection \<open>The default creation command\<close>

text \<open>
  \<^verbatim>\<open>_add_user_cmd_default\<close> (lines 76 to 86).  The fourth token of the Linux template is
  the two characters \<^verbatim>\<open>""\<close>, each \<open>CHR 0x22\<close>.
\<close>

definition add_user_cmd_default :: "'h env \<Rightarrow> py_error + string list" where
  "add_user_cmd_default env =
     (if platform env = ''darwin''
      then Inl (ValueError ''I don't know how to create users on OS X'')
      else if truthy (which env ''pw'')
      then Inr [''pw'', ''useradd'', ''-m'']
      else Inr [''adduser'', ''-q'', ''--gecos'', [CHR 0x22, CHR 0x22], ''--disabled-password''])"

text \<open>
  Reading the trait \<^verbatim>\<open>self.add_user_cmd\<close>: the configured value, and when none was
  configured the result of the method registered with \<^verbatim>\<open>@default('add_user_cmd')\<close>, whose
  exception reaches the reader.
\<close>

definition get_add_user_cmd :: "'h env \<Rightarrow> authenticator \<Rightarrow> py_error + string list" where
  "get_add_user_cmd env self =
     (case add_user_cmd self of
        Some cmd \<Rightarrow> Inr cmd
      | None \<Rightarrow> add_user_cmd_default env)"

subsection \<open>Allow-lists\<close>

text \<open>
  The loop of \<^verbatim>\<open>check_group_whitelist\<close> (lines 118 to 126) over the groups still to visit.
\<close>

fun check_groups :: "string \<Rightarrow> string list \<Rightarrow> 'h world \<Rightarrow> (py_error + bool) \<times> 'h world" where
  "check_groups username [] w = (Inr False, w)"
| "check_groups username (grnam # rest) w =
     (case getgrnam (os w) grnam of
        Inl e \<Rightarrow>
          (if is_KeyError e
           then check_groups username rest (emit (Log ERROR (''No such group: ['' @ grnam @ '']'')) w)
           else (Inl e, w))
      | Inr group_entry \<Rightarrow>
          (if username \<in> set (gr_mem group_entry) then (Inr True, w)
           else check_groups username rest w))"

text \<open>\<^verbatim>\<open>check_group_whitelist\<close> (lines 112 to 126).\<close>

definition check_group_whitelist ::
  "authenticator \<Rightarrow> string \<Rightarrow> 'h world \<Rightarrow> (py_error + bool) \<times> 'h world" where
  "check_group_whitelist self username w =
     (if group_whitelist self = [] then (Inr False, w)
      else check_groups username (group_whitelist self) w)"

text \<open>\<^verbatim>\<open>check_whitelist\<close> (lines 106 to 110).\<close>

definition check_whitelist ::
  "'h env \<Rightarrow> authenticator \<Rightarrow> string \<Rightarrow> 'h world \<Rightarrow> (py_error + bool) \<times> 'h world" where
  "check_whitelist env self username w =
     (if group_whitelist self \<noteq> [] then check_group_whitelist self username w
      else (Inr (super_check_whitelist env self username), w))"

subsection \<open>The new-user hook\<close>

text \<open>\<^verbatim>\<open>system_user_exists\<close> (lines 143 to 151).\<close>

definition system_user_exists :: "user \<Rightarrow> 'h world \<Rightarrow> py_error + bool" where
  "system_user_exists user w =
     (case getpwnam (os w) (name user) of
        Inl e \<Rightarrow> (if is_KeyError e then Inr False else Inl e)
      | Inr p \<Rightarrow> Inr True)"

text \<open>
  \<^verbatim>\<open>add_system_user\<close> (lines 153 to 165).  \<^verbatim>\<open>if p.returncode:\<close> holds for every exit
  status other than 0.
\<close>

definition add_system_user ::
  "'h env \<Rightarrow> authenticator \<Rightarrow> user \<Rightarrow> 'h world \<Rightarrow> (py_error + unit) \<times> 'h world" where
  "add_system_user env self user w =
     (case get_add_user_cmd env self of
        Inl e \<Rightarrow> (Inl e, w)
      | Inr template \<Rightarrow>
          (let cmd = map (replace ''USERNAME'' (name user)) template @ [name user];
               w1 = emit (Log INFO (''Creating user: '' @ join '' '' (map (quote env) cmd))) w;
               (r, s) = Popen env cmd (os w1);
               w2 = emit (Call_Popen cmd) (w1\<lparr>os := s\<rparr>)
           in case r of
                Inl e \<Rightarrow> (Inl e, w2)
              | Inr p \<Rightarrow>
                  (if returncode p \<noteq> 0
                   then (Inl (RuntimeError
                           (''Failed to create system user '' @ name user @ '': '' @ stdout p)), w2)
                   else (Inr (), w2))))"

text \<open>
  \<^verbatim>\<open>add_user\<close> (lines 128 to 141).  The coroutine runs its three steps in order; an
  exception raised in it becomes the outcome of the hook.
\<close>

definition add_user ::
  "'h env \<Rightarrow> authenticator \<Rightarrow> user \<Rightarrow> 'h world \<Rightarrow> (py_error + unit) \<times> 'h world" where
  "add_user env self user w =
     (case system_user_exists user w of
        Inl e \<Rightarrow> (Inl e, w)
      | Inr user_exists \<Rightarrow>
          (let (r, w1) =
                 (if \<not> user_exists
                  then (if create_system_users self then add_system_user env self user w
                        else (Inl (KeyError (''User '' @ name user @ '' does not exist.'')), w))
                  else (Inr (), w))
           in case r of
                Inl e \<Rightarrow> (Inl e, w1)
              | Inr u \<Rightarrow>
                  (let (r2, h2) = super_add_user env user (hub w1)
                   in (r2, emit (Call_super_add_user user) (w1\<lparr>hub := h2\<rparr>)))))"

section \<open>The specification's reading of the username file\<close>

text \<open>
  The specification says the handler strips the trailing newline of the file's content
  and nothing else.  This function follows those words; it is compared with what
  \<open>MyLoginHandler_get\<close> does.
\<close>

definition spec_strip_trailing_newline :: "string \<Rightarrow> string" where
  "spec_strip_trailing_newline s = (if s \<noteq> [] \<and> last s = CHR 0x0A then butlast s else s)"

section \<open>Scenarios\<close>

text \<open>
  A concrete system on which the theorems below are instantiated: the username file
  holds \<^verbatim>\<open>river\<close> and a newline, \<^verbatim>\<open>alice\<close> has an account, and the group \<^verbatim>\<open>staff\<close> has
  the members \<^verbatim>\<open>alice\<close> and \<^verbatim>\<open>bob\<close>.  The host state is the list of usernames the base
  class has recorded.
\<close>

definition demo_os :: os_state where
  "demo_os =
     \<lparr>files = [''auto_login_username.txt'' \<mapsto> ''river'' @ [CHR 0x0A]],
      passwd = [''alice'' \<mapsto> \<lparr>pw_name = ''alice'', pw_uid = 1000\<rparr>],
      groups = [''staff'' \<mapsto> \<lparr>gr_name = ''staff'', gr_mem = [''alice'', ''bob'']\<rparr>]\<rparr>"

definition demo_world :: "string list world" where
  "demo_world = \<lparr>os = demo_os, hub = [], trace = []\<rparr>"

definition demo_self :: authenticator where
  "demo_self =
     \<lparr>create_system_users = True,
      add_user_cmd =
        Some [''adduser'', ''-q'', ''--gecos'', [CHR 0x22, CHR 0x22], ''--disabled-password''],
      group_whitelist = [''staff''],
      whitelist = {''dave''}\<rparr>"

text \<open>
  An environment whose creation command ends as the process \<open>p\<close> and leaves the
  databases alone, and whose host calls all succeed.
\<close>

definition demo_env :: "process \<Rightarrow> string list env" where
  "demo_env p =
     \<lparr>platform = ''linux'',
      which = (\<lambda>c. None),
      quote = (\<lambda>s. s),
      url_path_join = (\<lambda>a b. a @ ''/'' @ b),
      Popen = (\<lambda>cmd s. (Inr p, s)),
      user_from_username = (\<lambda>n h. (Inr \<lparr>name = n\<rparr>, h)),
      set_login_cookie = (\<lambda>u h. (Inr (), h)),
      redirect = (\<lambda>url h. (Inr (), h)),
      base_url = (\<lambda>h. ''/hub''),
      super_check_whitelist = (\<lambda>self n. whitelist self = {} \<or> n \<in> whitelist self),
      super_add_user = (\<lambda>u h. (Inr (), h @ [name u]))\<rparr>"

section \<open>Auxiliary facts\<close>

subsection \<open>The trace\<close>



subsection \<open>\<^verbatim>\<open>str.replace\<close>\<close>








lemma replace_newline: "replace [CHR 0x0A] [] s = filter (\<lambda>c. c \<noteq> CHR 0x0A) s"
  by (induction s) auto

subsection \<open>The loop over the configured groups\<close>











subsection \<open>The new-user hook, case by case\<close>

lemma system_user_exists_missing:
  "passwd (os w) (name user) = None \<Longrightarrow> CHR 0x00 \<notin> set (name user) \<Longrightarrow>
   system_user_exists user w = Inr False"
  by (simp add: system_user_exists_def getpwnam_def)

lemma system_user_exists_embedded_null:
  "passwd (os w) (name user) = None \<Longrightarrow> CHR 0x00 \<in> set (name user) \<Longrightarrow>
   system_user_exists user w = Inl (ValueError ''embedded null byte'')"
  by (simp add: system_user_exists_def getpwnam_def)

lemma system_user_exists_present:
  "passwd (os w) (name user) = Some p \<Longrightarrow> system_user_exists user w = Inr True"
  by (simp add: system_user_exists_def getpwnam_def)

lemma add_system_user_exited:
  assumes "get_add_user_cmd env self = Inr template"
    and "Popen env (map (replace ''USERNAME'' (name user)) template @ [name user]) (os w) = (Inr p, s)"
  shows "add_system_user env self user w =
     (if returncode p \<noteq> 0
      then Inl (RuntimeError (''Failed to create system user '' @ name user @ '': '' @ stdout p))
      else Inr (),
      w\<lparr>os := s,
        trace := trace w @
          [Log INFO (''Creating user: '' @
             join '' '' (map (quote env) (map (replace ''USERNAME'' (name user)) template @ [name user]))),
           Call_Popen (map (replace ''USERNAME'' (name user)) template @ [name user])]\<rparr>)"
  using assms by (simp add: add_system_user_def emit_def)

lemma add_user_embedded_null:
  assumes "passwd (os w) (name user) = None" and "CHR 0x00 \<in> set (name user)"
  shows "add_user env self user w = (Inl (ValueError ''embedded null byte''), w)"
  using assms by (simp add: add_user_def system_user_exists_embedded_null)

lemma add_user_missing_disabled:
  assumes "passwd (os w) (name user) = None" and "CHR 0x00 \<notin> set (name user)"
    and "\<not> create_system_users self"
  shows "add_user env self user w =
     (Inl (KeyError (''User '' @ name user @ '' does not exist.'')), w)"
  using assms by (simp add: add_user_def system_user_exists_missing)

lemma add_user_missing_enabled:
  assumes "passwd (os w) (name user) = None" and "CHR 0x00 \<notin> set (name user)"
    and "create_system_users self"
  shows "add_user env self user w =
     (case add_system_user env self user w of
        (Inl e, w1) \<Rightarrow> (Inl e, w1)
      | (Inr u, w1) \<Rightarrow>
          (fst (super_add_user env user (hub w1)),
           emit (Call_super_add_user user) (w1\<lparr>hub := snd (super_add_user env user (hub w1))\<rparr>)))"
  using assms
  by (simp add: add_user_def system_user_exists_missing split: prod.splits sum.splits)

lemma add_user_present:
  assumes "passwd (os w) (name user) = Some p"
  shows "add_user env self user w =
     (fst (super_add_user env user (hub w)),
      emit (Call_super_add_user user) (w\<lparr>hub := snd (super_add_user env user (hub w))\<rparr>))"
  using assms
  by (simp add: add_user_def system_user_exists_present split: prod.splits)

lemma add_user_aborted_by_add_system_user:
  assumes "passwd (os w) (name user) = None" and "CHR 0x00 \<notin> set (name user)"
    and "create_system_users self"
    and "add_system_user env self user w = (Inl e, w1)"
  shows "add_user env self user w = (Inl e, w1)"
  using assms(4) by (simp add: add_user_missing_enabled [OF assms(1,2,3)])

subsection \<open>The login handler\<close>

lemma MyLoginHandler_get_first_call:
  assumes "files (os w) ''auto_login_username.txt'' = Some s"
  shows "prefix (trace w @ [Call_user_from_username (replace [CHR 0x0A] [] s)])
           (trace (snd (MyLoginHandler_get env w)))"
  using assms
  by (auto simp add: MyLoginHandler_get_def Let_def emit_def split: prod.splits sum.splits)

lemma MyLoginHandler_get_success:
  assumes "files (os w) ''auto_login_username.txt'' = Some s"
    and "user_from_username env (replace [CHR 0x0A] [] s) (hub w) = (Inr user, h1)"
    and "set_login_cookie env user h1 = (Inr (), h2)"
    and "redirect env (url_path_join env (base_url env h2) ''home'') h2 = (r, h3)"
  shows "MyLoginHandler_get env w =
     (r, w\<lparr>hub := h3,
          trace := trace w @
            [Call_user_from_username (replace [CHR 0x0A] [] s),
             Call_set_login_cookie user,
             Call_redirect (url_path_join env (base_url env h2) ''home'')]\<rparr>)"
  using assms by (simp add: MyLoginHandler_get_def emit_def)

section \<open>The login handler authenticates the name in the file\<close>

text \<open>
  C1, as amended.  Let \<open>s\<close> be the content of the username file.  The handler
  authenticates the username obtained from \<open>s\<close> by removing every newline character,
  not only a trailing one: its first call to the host is \<^verbatim>\<open>user_from_username\<close> with that
  name.  When the host returns a user and sets the cookie, the handler has set the
  login cookie for that user and redirected to \<^verbatim>\<open>url_path_join(base_url, 'home')\<close>, and
  its outcome is the redirect's.  For every username \<open>U\<close> that contains no newline,
  written into the file with or without one trailing newline, the authenticated
  username is exactly \<open>U\<close>.
\<close>

theorem login_handler_authenticates_file_username:
  assumes content: "files (os w) ''auto_login_username.txt'' = Some s"
    and username: "username = filter (\<lambda>c. c \<noteq> CHR 0x0A) s"
  shows "prefix (trace w @ [Call_user_from_username username]) (trace (snd (MyLoginHandler_get env w)))
     \<and> (user_from_username env username (hub w) = (Inr user, h1)
          \<and> set_login_cookie env user h1 = (Inr (), h2)
          \<and> redirect env (url_path_join env (base_url env h2) ''home'') h2 = (r, h3) \<longrightarrow>
        MyLoginHandler_get env w =
          (r, w\<lparr>hub := h3,
               trace := trace w @
                 [Call_user_from_username username,
                  Call_set_login_cookie user,
                  Call_redirect (url_path_join env (base_url env h2) ''home'')]\<rparr>))
     \<and> (CHR 0x0A \<notin> set U \<and> (s = U \<or> s = U @ [CHR 0x0A]) \<longrightarrow> username = U)"
proof (intro conjI impI)
  have name: "replace [CHR 0x0A] [] s = username"
    by (simp add: username replace_newline)
  show "prefix (trace w @ [Call_user_from_username username]) (trace (snd (MyLoginHandler_get env w)))"
    using MyLoginHandler_get_first_call [OF content, of env] by (simp only: name)
  show "MyLoginHandler_get env w =
          (r, w\<lparr>hub := h3,
               trace := trace w @
                 [Call_user_from_username username,
                  Call_set_login_cookie user,
                  Call_redirect (url_path_join env (base_url env h2) ''home'')]\<rparr>)"
    if "user_from_username env username (hub w) = (Inr user, h1)
          \<and> set_login_cookie env user h1 = (Inr (), h2)
          \<and> redirect env (url_path_join env (base_url env h2) ''home'') h2 = (r, h3)"
    using MyLoginHandler_get_success [OF content, of env user h1 h2 r h3] that
    by (simp only: name)
  show "username = U" if "CHR 0x0A \<notin> set U \<and> (s = U \<or> s = U @ [CHR 0x0A])"
  proof -
    from that have "filter (\<lambda>c. c \<noteq> CHR 0x0A) U = U"
      by (auto intro: filter_True)
    with that show ?thesis
      by (auto simp add: username)
  qed
qed

theorem login_handler_authenticates_file_username_witness:
  "MyLoginHandler_get (demo_env \<lparr>returncode = 0, stdout = []\<rparr>) demo_world =
     (Inr (),
      demo_world\<lparr>trace :=
        [Call_user_from_username ''river'',
         Call_set_login_cookie \<lparr>name = ''river''\<rparr>,
         Call_redirect ''/hub/home'']\<rparr>)"
proof -
  let ?env = "demo_env \<lparr>returncode = 0, stdout = []\<rparr>"
  have content: "files (os demo_world) ''auto_login_username.txt'' = Some (''river'' @ [CHR 0x0A])"
    by (simp add: demo_world_def demo_os_def)
  have username: "''river'' = filter (\<lambda>c. c \<noteq> CHR 0x0A) (''river'' @ [CHR 0x0A])"
    by simp
  have host: "user_from_username ?env ''river'' (hub demo_world) = (Inr \<lparr>name = ''river''\<rparr>, [])
      \<and> set_login_cookie ?env \<lparr>name = ''river''\<rparr> [] = (Inr (), [])
      \<and> redirect ?env (url_path_join ?env (base_url ?env []) ''home'') [] = (Inr (), [])"
    by (simp add: demo_env_def demo_world_def)
  from login_handler_authenticates_file_username
         [OF content username, where env = ?env and user = "\<lparr>name = ''river''\<rparr>" and ?h1.0 = "[]"
            and ?h2.0 = "[]" and r = "Inr ()" and ?h3.0 = "[]" and U = "''river''"] host
  have "MyLoginHandler_get ?env demo_world =
      (Inr (),
       demo_world\<lparr>hub := [],
         trace := trace demo_world @
           [Call_user_from_username ''river'',
            Call_set_login_cookie \<lparr>name = ''river''\<rparr>,
            Call_redirect (url_path_join ?env (base_url ?env []) ''home'')]\<rparr>)"
    by blast
  then show ?thesis
    by (simp add: demo_env_def demo_world_def)
qed

text \<open>
  The claim as first stated fails on a file of two lines: the specification's reading
  keeps the inner newline, the handler joins the lines and authenticates \<^verbatim>\<open>river\<close>.
\<close>

theorem login_handler_removes_inner_newlines_counterexample:
  "trace (snd (MyLoginHandler_get (demo_env \<lparr>returncode = 0, stdout = []\<rparr>)
      (demo_world\<lparr>os := demo_os\<lparr>files :=
         [''auto_login_username.txt'' \<mapsto> ''ri'' @ [CHR 0x0A] @ ''ver'' @ [CHR 0x0A]]\<rparr>\<rparr>))) =
     [Call_user_from_username ''river'',
      Call_set_login_cookie \<lparr>name = ''river''\<rparr>,
      Call_redirect ''/hub/home'']
   \<and> spec_strip_trailing_newline (''ri'' @ [CHR 0x0A] @ ''ver'' @ [CHR 0x0A]) = ''ri'' @ [CHR 0x0A] @ ''ver''
   \<and> ''river'' \<noteq> spec_strip_trailing_newline (''ri'' @ [CHR 0x0A] @ ''ver'' @ [CHR 0x0A])"
  by (simp add: MyLoginHandler_get_def spec_strip_trailing_newline_def demo_env_def demo_world_def
      demo_os_def emit_def Let_def)

section \<open>Claims about the allow-lists\<close>

text \<open>
  C2.  For every username, \<^verbatim>\<open>check_whitelist\<close> returns the result of
  \<^verbatim>\<open>check_group_whitelist\<close> whenever \<open>group_whitelist\<close> is not empty, whatever the username
  allow-list \<open>whitelist\<close> holds; when \<open>group_whitelist\<close> is empty it returns the result
  of the base class's username allow-list check.
\<close>

theorem check_whitelist_group_list_dominates:
  "(group_whitelist self \<noteq> [] \<longrightarrow>
      check_whitelist env self username w = check_group_whitelist self username w
      \<and> check_whitelist env (self\<lparr>whitelist := names\<rparr>) username w = check_whitelist env self username w)
   \<and> (group_whitelist self = [] \<longrightarrow>
      check_whitelist env self username w = (Inr (super_check_whitelist env self username), w))"
  by (simp add: check_whitelist_def check_group_whitelist_def)

theorem check_whitelist_group_list_dominates_witness:
  "check_whitelist (demo_env \<lparr>returncode = 0, stdout = []\<rparr>) demo_self ''alice'' demo_world =
     (Inr True, demo_world)
   \<and> check_whitelist (demo_env \<lparr>returncode = 0, stdout = []\<rparr>) demo_self ''dave'' demo_world =
     (Inr False, demo_world)
   \<and> check_whitelist (demo_env \<lparr>returncode = 0, stdout = []\<rparr>)
         (demo_self\<lparr>group_whitelist := []\<rparr>) ''dave'' demo_world = (Inr True, demo_world)
   \<and> check_whitelist (demo_env \<lparr>returncode = 0, stdout = []\<rparr>)
         (demo_self\<lparr>group_whitelist := []\<rparr>) ''alice'' demo_world = (Inr False, demo_world)"
proof -
  let ?env = "demo_env \<lparr>returncode = 0, stdout = []\<rparr>"
  have configured: "group_whitelist demo_self \<noteq> []"
    by (simp add: demo_self_def)
  have empty: "group_whitelist (demo_self\<lparr>group_whitelist := []\<rparr>) = []"
    by simp
  note group = check_whitelist_group_list_dominates
    [where self = demo_self and env = ?env and w = demo_world and names = "{}"]
  note base = check_whitelist_group_list_dominates
    [where self = "demo_self\<lparr>group_whitelist := []\<rparr>" and env = ?env and w = demo_world
       and names = "{}"]
  from group [where username = "''alice''"] group [where username = "''dave''"]
    base [where username = "''alice''"] base [where username = "''dave''"] configured empty
  show ?thesis
    by (simp add: check_group_whitelist_def getgrnam_def demo_self_def demo_world_def demo_os_def
        demo_env_def)
qed










section \<open>Claims about the new-user hook\<close>







text \<open>
  C6.  For a user whose account exists, \<^verbatim>\<open>add_user\<close> starts no command and leaves the
  operating system alone: all it does is call the base class's \<^verbatim>\<open>add_user\<close>, whose outcome
  is the hook's.  The hook ends with the same call after \<^verbatim>\<open>add_system_user\<close> has created a
  missing account (for a username without a NUL character, which is what lets the hook
  reach \<^verbatim>\<open>add_system_user\<close>).
\<close>

theorem add_user_existing_account_only_delegates:
  "(passwd (os w) (name user) = Some entry \<longrightarrow>
      add_user env self user w =
        (fst (super_add_user env user (hub w)),
         w\<lparr>hub := snd (super_add_user env user (hub w)),
           trace := trace w @ [Call_super_add_user user]\<rparr>)
      \<and> os (snd (add_user env self user w)) = os w
      \<and> (\<forall>cmd. Call_Popen cmd \<notin> set (drop (length (trace w)) (trace (snd (add_user env self user w))))))
   \<and> (passwd (os w) (name user) = None \<and> CHR 0x00 \<notin> set (name user) \<and>
        add_system_user env self user w = (Inr (), w1) \<and> create_system_users self \<longrightarrow>
      add_user env self user w =
        (fst (super_add_user env user (hub w1)),
         w1\<lparr>hub := snd (super_add_user env user (hub w1)),
            trace := trace w1 @ [Call_super_add_user user]\<rparr>))"
proof (intro conjI impI)
  assume "passwd (os w) (name user) = Some entry"
  then have hook: "add_user env self user w =
        (fst (super_add_user env user (hub w)),
         w\<lparr>hub := snd (super_add_user env user (hub w)),
           trace := trace w @ [Call_super_add_user user]\<rparr>)"
    by (simp add: add_user_present emit_def)
  then show "add_user env self user w =
        (fst (super_add_user env user (hub w)),
         w\<lparr>hub := snd (super_add_user env user (hub w)),
           trace := trace w @ [Call_super_add_user user]\<rparr>)" .
  show "os (snd (add_user env self user w)) = os w"
    by (simp add: hook)
  show "\<forall>cmd. Call_Popen cmd \<notin> set (drop (length (trace w)) (trace (snd (add_user env self user w))))"
    by (simp add: hook)
next
  assume "passwd (os w) (name user) = None \<and> CHR 0x00 \<notin> set (name user) \<and>
        add_system_user env self user w = (Inr (), w1) \<and> create_system_users self"
  then show "add_user env self user w =
        (fst (super_add_user env user (hub w1)),
         w1\<lparr>hub := snd (super_add_user env user (hub w1)),
            trace := trace w1 @ [Call_super_add_user user]\<rparr>)"
    by (simp add: add_user_missing_enabled emit_def)
qed

theorem add_user_existing_account_only_delegates_witness:
  "add_user (demo_env \<lparr>returncode = 1, stdout = ''never run''\<rparr>) demo_self \<lparr>name = ''alice''\<rparr> demo_world =
     (Inr (), demo_world\<lparr>hub := [''alice''], trace := [Call_super_add_user \<lparr>name = ''alice''\<rparr>]\<rparr>)"
proof -
  have existing: "passwd (os demo_world) (name \<lparr>name = ''alice''\<rparr>) =
      Some \<lparr>pw_name = ''alice'', pw_uid = 1000\<rparr>"
    by (simp add: demo_world_def demo_os_def)
  from add_user_existing_account_only_delegates
    [where w = demo_world and user = "\<lparr>name = ''alice''\<rparr>"
       and entry = "\<lparr>pw_name = ''alice'', pw_uid = 1000\<rparr>"
       and env = "demo_env \<lparr>returncode = 1, stdout = ''never run''\<rparr>" and self = demo_self]
    existing
  show ?thesis
    by (simp add: demo_env_def demo_world_def)
qed

text \<open>
  C9.  When \<^verbatim>\<open>add_user\<close> fails because the account is missing and creation is disabled,
  or because the creation command exited with a status other than 0, the base class's
  \<^verbatim>\<open>add_user\<close> is not called: the hook's outcome is an exception, the host state is the
  one before the hook, and no call of the base class is among the events the hook
  added to the trace.  More generally, for a username without a NUL character, an
  exception of \<^verbatim>\<open>add_system_user\<close> is the outcome of the hook, with the world
  \<^verbatim>\<open>add_system_user\<close> left.
\<close>

theorem add_user_error_skips_base_add_user:
  "(passwd (os w) (name user) = None \<and> \<not> create_system_users self \<longrightarrow>
      isl (fst (add_user env self user w))
      \<and> snd (add_user env self user w) = w)
   \<and> (passwd (os w) (name user) = None \<and> create_system_users self
        \<and> get_add_user_cmd env self = Inr template
        \<and> Popen env (map (replace ''USERNAME'' (name user)) template @ [name user]) (os w) = (Inr p, s)
        \<and> returncode p \<noteq> 0 \<longrightarrow>
      isl (fst (add_user env self user w))
      \<and> hub (snd (add_user env self user w)) = hub w
      \<and> (\<exists>evs. trace (snd (add_user env self user w)) = trace w @ evs
                \<and> (\<forall>u. Call_super_add_user u \<notin> set evs)))
   \<and> (passwd (os w) (name user) = None \<and> CHR 0x00 \<notin> set (name user) \<and> create_system_users self
        \<and> add_system_user env self user w = (Inl e, w1) \<longrightarrow>
      add_user env self user w = (Inl e, w1))"
proof (intro conjI impI)
  assume "passwd (os w) (name user) = None \<and> \<not> create_system_users self"
  then have "add_user env self user w =
        (Inl (KeyError (''User '' @ name user @ '' does not exist.'')), w)
      \<or> add_user env self user w = (Inl (ValueError ''embedded null byte''), w)"
    by (cases "CHR 0x00 \<in> set (name user)")
      (simp_all add: add_user_missing_disabled add_user_embedded_null)
  then show "isl (fst (add_user env self user w))" and "snd (add_user env self user w) = w"
    by auto
next
  assume "passwd (os w) (name user) = None \<and> CHR 0x00 \<notin> set (name user) \<and> create_system_users self
        \<and> add_system_user env self user w = (Inl e, w1)"
  then have "passwd (os w) (name user) = None" and "CHR 0x00 \<notin> set (name user)"
    and "create_system_users self" and "add_system_user env self user w = (Inl e, w1)"
    by blast+
  then show "add_user env self user w = (Inl e, w1)"
    by (rule add_user_aborted_by_add_system_user)
next
  let ?cmd = "map (replace ''USERNAME'' (name user)) template @ [name user]"
  let ?evs = "[Log INFO (''Creating user: '' @ join '' '' (map (quote env) ?cmd)), Call_Popen ?cmd]"
  let ?e = "RuntimeError (''Failed to create system user '' @ name user @ '': '' @ stdout p)"
  assume case_failed: "passwd (os w) (name user) = None \<and> create_system_users self
        \<and> get_add_user_cmd env self = Inr template
        \<and> Popen env ?cmd (os w) = (Inr p, s)
        \<and> returncode p \<noteq> 0"
  then have missing: "passwd (os w) (name user) = None"
    and enabled: "create_system_users self"
    and template: "get_add_user_cmd env self = Inr template"
    and exited: "Popen env ?cmd (os w) = (Inr p, s)"
    and nonzero: "returncode p \<noteq> 0"
    by blast+
  have "\<exists>err evs. add_user env self user w = (Inl err, w\<lparr>os := os (snd (add_user env self user w)),
          trace := trace w @ evs\<rparr>) \<and> (\<forall>u. Call_super_add_user u \<notin> set evs)"
  proof (cases "CHR 0x00 \<in> set (name user)")
    case True
    have "add_user env self user w = (Inl (ValueError ''embedded null byte''), w)"
      using missing True by (rule add_user_embedded_null)
    then have "add_user env self user w =
          (Inl (ValueError ''embedded null byte''),
           w\<lparr>os := os (snd (add_user env self user w)), trace := trace w @ []\<rparr>)
        \<and> (\<forall>u. Call_super_add_user u \<notin> set [])"
      by simp
    then show ?thesis by blast
  next
    case False
    have "add_system_user env self user w = (Inl ?e, w\<lparr>os := s, trace := trace w @ ?evs\<rparr>)"
      using add_system_user_exited [OF template exited] nonzero by simp
    with missing False enabled
    have "add_user env self user w = (Inl ?e, w\<lparr>os := s, trace := trace w @ ?evs\<rparr>)"
      by (rule add_user_aborted_by_add_system_user)
    then have "add_user env self user w =
          (Inl ?e, w\<lparr>os := os (snd (add_user env self user w)), trace := trace w @ ?evs\<rparr>)
        \<and> (\<forall>u. Call_super_add_user u \<notin> set ?evs)"
      by simp
    then show ?thesis by blast
  qed
  then obtain err evs
    where hook: "add_user env self user w =
        (Inl err, w\<lparr>os := os (snd (add_user env self user w)), trace := trace w @ evs\<rparr>)"
      and quiet: "\<forall>u. Call_super_add_user u \<notin> set evs"
    by blast
  have outcome: "isl (fst (add_user env self user w))"
    by (subst hook) simp
  have host: "hub (snd (add_user env self user w)) = hub w"
    by (subst hook) simp
  have events: "trace (snd (add_user env self user w)) = trace w @ evs"
    by (subst hook) simp
  show "isl (fst (add_user env self user w))"
    by (rule outcome)
  show "hub (snd (add_user env self user w)) = hub w"
    by (rule host)
  show "\<exists>evs. trace (snd (add_user env self user w)) = trace w @ evs
                \<and> (\<forall>u. Call_super_add_user u \<notin> set evs)"
  proof (intro exI conjI)
    show "trace (snd (add_user env self user w)) = trace w @ evs"
      by (rule events)
    show "\<forall>u. Call_super_add_user u \<notin> set evs"
      by (rule quiet)
  qed
qed

theorem add_user_error_skips_base_add_user_witness:
  "add_user (demo_env \<lparr>returncode = 1, stdout = ''useradd: user exists''\<rparr>) demo_self
       \<lparr>name = ''river''\<rparr> demo_world =
     (Inl (RuntimeError ''Failed to create system user river: useradd: user exists''),
      demo_world\<lparr>trace :=
        [Log INFO (''Creating user: adduser -q --gecos '' @ [CHR 0x22, CHR 0x22] @ '' --disabled-password river''),
         Call_Popen [''adduser'', ''-q'', ''--gecos'', [CHR 0x22, CHR 0x22], ''--disabled-password'', ''river'']]\<rparr>)
   \<and> hub (snd (add_user (demo_env \<lparr>returncode = 1, stdout = ''useradd: user exists''\<rparr>) demo_self
       \<lparr>name = ''river''\<rparr> demo_world)) = []
   \<and> isl (fst (add_user (demo_env \<lparr>returncode = 1, stdout = ''useradd: user exists''\<rparr>) demo_self
       \<lparr>name = ''river''\<rparr> demo_world))
   \<and> snd (add_user (demo_env \<lparr>returncode = 0, stdout = []\<rparr>) (demo_self\<lparr>create_system_users := False\<rparr>)
       \<lparr>name = ''river''\<rparr> demo_world) = demo_world"
proof -
  let ?river = "\<lparr>name = ''river''\<rparr>"
  let ?template = "[''adduser'', ''-q'', ''--gecos'', [CHR 0x22, CHR 0x22], ''--disabled-password'']"
  let ?failing = "\<lparr>returncode = 1, stdout = ''useradd: user exists''\<rparr>"
  have missing: "passwd (os demo_world) (name ?river) = None"
    by (simp add: demo_world_def demo_os_def)
  have named: "CHR 0x00 \<notin> set (name ?river)"
    by simp
  have enabled: "create_system_users demo_self"
    by (simp add: demo_self_def)
  have disabled: "\<not> create_system_users (demo_self\<lparr>create_system_users := False\<rparr>)"
    by simp
  have template: "get_add_user_cmd (demo_env ?failing) demo_self = Inr ?template"
    by (simp add: get_add_user_cmd_def demo_self_def)
  have exited: "Popen (demo_env ?failing) (map (replace ''USERNAME'' (name ?river)) ?template @ [name ?river])
      (os demo_world) = (Inr ?failing, demo_os)"
    by (simp add: demo_env_def demo_world_def)
  have nonzero: "returncode ?failing \<noteq> 0"
    by simp
  have run: "add_system_user (demo_env ?failing) demo_self ?river demo_world =
     (Inl (RuntimeError ''Failed to create system user river: useradd: user exists''),
      demo_world\<lparr>trace :=
        [Log INFO (''Creating user: adduser -q --gecos '' @ [CHR 0x22, CHR 0x22] @ '' --disabled-password river''),
         Call_Popen [''adduser'', ''-q'', ''--gecos'', [CHR 0x22, CHR 0x22], ''--disabled-password'', ''river'']]\<rparr>)"
    by (simp add: add_system_user_def get_add_user_cmd_def demo_self_def demo_env_def demo_world_def emit_def)
  note failing = add_user_error_skips_base_add_user
    [where w = demo_world and user = ?river and self = demo_self and env = "demo_env ?failing"
       and template = ?template and p = ?failing and s = demo_os
       and e = "RuntimeError ''Failed to create system user river: useradd: user exists''"
       and ?w1.0 = "demo_world\<lparr>trace :=
        [Log INFO (''Creating user: adduser -q --gecos '' @ [CHR 0x22, CHR 0x22] @ '' --disabled-password river''),
         Call_Popen [''adduser'', ''-q'', ''--gecos'', [CHR 0x22, CHR 0x22], ''--disabled-password'', ''river'']]\<rparr>"]
  note rejecting = add_user_error_skips_base_add_user
    [where w = demo_world and user = ?river and self = "demo_self\<lparr>create_system_users := False\<rparr>"
       and env = "demo_env \<lparr>returncode = 0, stdout = []\<rparr>"]
  have hook: "add_user (demo_env ?failing) demo_self ?river demo_world =
     (Inl (RuntimeError ''Failed to create system user river: useradd: user exists''),
      demo_world\<lparr>trace :=
        [Log INFO (''Creating user: adduser -q --gecos '' @ [CHR 0x22, CHR 0x22] @ '' --disabled-password river''),
         Call_Popen [''adduser'', ''-q'', ''--gecos'', [CHR 0x22, CHR 0x22], ''--disabled-password'', ''river'']]\<rparr>)"
    using failing missing named enabled run by blast
  have "hub (snd (add_user (demo_env ?failing) demo_self ?river demo_world)) = hub demo_world
      \<and> isl (fst (add_user (demo_env ?failing) demo_self ?river demo_world))"
    using failing missing enabled template exited nonzero by blast
  moreover have "snd (add_user (demo_env \<lparr>returncode = 0, stdout = []\<rparr>)
      (demo_self\<lparr>create_system_users := False\<rparr>) ?river demo_world) = demo_world"
    using rejecting missing disabled by blast
  moreover have "hub demo_world = []"
    by (simp add: demo_world_def)
  ultimately show ?thesis
    using hook by simp
qed

section \<open>The default creation command\<close>

text \<open>
  C8.  When \<open>add_user_cmd\<close> is not configured, reading it computes the default: on the
  platform \<^verbatim>\<open>darwin\<close> a \<^verbatim>\<open>ValueError\<close> is raised, which \<^verbatim>\<open>add_system_user\<close> passes on
  before it starts anything; on any other platform the default is
  \<^verbatim>\<open>['pw', 'useradd', '-m']\<close> when \<^verbatim>\<open>which('pw')\<close> finds the utility, and
  \<^verbatim>\<open>['adduser', '-q', '--gecos', '""', '--disabled-password']\<close> when it does not.
\<close>

theorem add_user_cmd_default_by_platform:
  "(add_user_cmd self = None \<longrightarrow> get_add_user_cmd env self = add_user_cmd_default env)
   \<and> (platform env = ''darwin'' \<longrightarrow>
        add_user_cmd_default env = Inl (ValueError ''I don't know how to create users on OS X''))
   \<and> (add_user_cmd self = None \<and> platform env = ''darwin'' \<longrightarrow>
        add_system_user env self user w =
          (Inl (ValueError ''I don't know how to create users on OS X''), w))
   \<and> (platform env \<noteq> ''darwin'' \<and> which env ''pw'' = Some path \<and> path \<noteq> [] \<longrightarrow>
        add_user_cmd_default env = Inr [''pw'', ''useradd'', ''-m''])
   \<and> (platform env \<noteq> ''darwin'' \<and> which env ''pw'' = None \<longrightarrow>
        add_user_cmd_default env =
          Inr [''adduser'', ''-q'', ''--gecos'', [CHR 0x22, CHR 0x22], ''--disabled-password''])"
proof (intro conjI impI)
  assume "add_user_cmd self = None"
  then show "get_add_user_cmd env self = add_user_cmd_default env"
    by (simp add: get_add_user_cmd_def)
next
  assume "platform env = ''darwin''"
  then show "add_user_cmd_default env = Inl (ValueError ''I don't know how to create users on OS X'')"
    by (simp add: add_user_cmd_default_def)
next
  assume "add_user_cmd self = None \<and> platform env = ''darwin''"
  then have "get_add_user_cmd env self = Inl (ValueError ''I don't know how to create users on OS X'')"
    by (simp add: get_add_user_cmd_def add_user_cmd_default_def)
  then show "add_system_user env self user w =
      (Inl (ValueError ''I don't know how to create users on OS X''), w)"
    by (simp add: add_system_user_def)
next
  assume "platform env \<noteq> ''darwin'' \<and> which env ''pw'' = Some path \<and> path \<noteq> []"
  then show "add_user_cmd_default env = Inr [''pw'', ''useradd'', ''-m'']"
    by (simp add: add_user_cmd_default_def)
next
  assume "platform env \<noteq> ''darwin'' \<and> which env ''pw'' = None"
  then show "add_user_cmd_default env =
      Inr [''adduser'', ''-q'', ''--gecos'', [CHR 0x22, CHR 0x22], ''--disabled-password'']"
    by (simp add: add_user_cmd_default_def)
qed

theorem add_user_cmd_default_by_platform_witness:
  "add_user_cmd_default ((demo_env \<lparr>returncode = 0, stdout = []\<rparr>)\<lparr>platform := ''darwin''\<rparr>) =
     Inl (ValueError ''I don't know how to create users on OS X'')
   \<and> add_system_user ((demo_env \<lparr>returncode = 0, stdout = []\<rparr>)\<lparr>platform := ''darwin''\<rparr>)
        (demo_self\<lparr>add_user_cmd := None\<rparr>) \<lparr>name = ''river''\<rparr> demo_world =
     (Inl (ValueError ''I don't know how to create users on OS X''), demo_world)
   \<and> add_user_cmd_default
        ((demo_env \<lparr>returncode = 0, stdout = []\<rparr>)
           \<lparr>platform := ''freebsd13'', which := (\<lambda>c. if c = ''pw'' then Some ''/usr/sbin/pw'' else None)\<rparr>) =
     Inr [''pw'', ''useradd'', ''-m'']
   \<and> get_add_user_cmd (demo_env \<lparr>returncode = 0, stdout = []\<rparr>) (demo_self\<lparr>add_user_cmd := None\<rparr>) =
     Inr [''adduser'', ''-q'', ''--gecos'', [CHR 0x22, CHR 0x22], ''--disabled-password'']"
proof -
  let ?env = "demo_env \<lparr>returncode = 0, stdout = []\<rparr>"
  let ?bsd = "?env\<lparr>platform := ''freebsd13'', which := (\<lambda>c. if c = ''pw'' then Some ''/usr/sbin/pw'' else None)\<rparr>"
  let ?self = "demo_self\<lparr>add_user_cmd := None\<rparr>"
  have unset: "add_user_cmd ?self = None"
    by simp
  have mac: "platform (?env\<lparr>platform := ''darwin''\<rparr>) = ''darwin''"
    by simp
  have bsd: "platform ?bsd \<noteq> ''darwin'' \<and> which ?bsd ''pw'' = Some ''/usr/sbin/pw'' \<and> ''/usr/sbin/pw'' \<noteq> []"
    by simp
  have linux: "platform ?env \<noteq> ''darwin'' \<and> which ?env ''pw'' = None"
    by (simp add: demo_env_def)
  from add_user_cmd_default_by_platform
         [where self = ?self and env = "?env\<lparr>platform := ''darwin''\<rparr>" and user = "\<lparr>name = ''river''\<rparr>"
            and w = demo_world]
       unset mac
  have on_mac: "add_user_cmd_default (?env\<lparr>platform := ''darwin''\<rparr>) =
       Inl (ValueError ''I don't know how to create users on OS X'')
     \<and> add_system_user (?env\<lparr>platform := ''darwin''\<rparr>) ?self \<lparr>name = ''river''\<rparr> demo_world =
       (Inl (ValueError ''I don't know how to create users on OS X''), demo_world)"
    by blast
  from add_user_cmd_default_by_platform
         [where self = ?self and env = ?bsd and path = "''/usr/sbin/pw''"] bsd
  have on_bsd: "add_user_cmd_default ?bsd = Inr [''pw'', ''useradd'', ''-m'']"
    by blast
  from add_user_cmd_default_by_platform [where self = ?self and env = ?env] unset linux
  have on_linux: "get_add_user_cmd ?env ?self =
      Inr [''adduser'', ''-q'', ''--gecos'', [CHR 0x22, CHR 0x22], ''--disabled-password'']"
    by (elim conjE) simp
  from on_mac on_bsd on_linux show ?thesis
    by (intro conjI) (elim conjE, assumption)+
qed

end
